theory Spec2Isabelle
  imports Main "HOL-Library.Word"
begin

section \<open>Data model: the Sequelize models of \<^verbatim>\<open>src/api/models\<close>\<close>

text \<open>
  A \<^verbatim>\<open>DataTypes.UUID\<close> column holds a 128-bit value (text that the store does not read as a
  UUID never reaches a row and is outside this type); a \<^verbatim>\<open>STRING\<close> or \<^verbatim>\<open>TEXT\<close> column a
  \<open>string\<close>, an \<^verbatim>\<open>INTEGER\<close> column an \<open>int\<close> (the store's 32-bit range is checked where a
  row is inserted), a \<^verbatim>\<open>DATE\<close> column the number of milliseconds since the epoch (what a
  JavaScript \<^verbatim>\<open>Date\<close> compares by). A column with \<^verbatim>\<open>allowNull: true\<close> is an \<open>option\<close>
  (\<open>None\<close> is SQL NULL). A column that has a \<^verbatim>\<open>defaultValue\<close> but no \<^verbatim>\<open>allowNull: false\<close>
  is an \<open>option\<close> too in \<^verbatim>\<open>leads\<close> and \<^verbatim>\<open>user_subreddits\<close>, the tables whose inserts are
  modelled (NULL is stored when null is written explicitly); in the other tables, whose
  rows are only read, updated or deleted here, such a column holds a value. An \<^verbatim>\<open>ENUM\<close> is
  a datatype with one constructor per listed value; a \<^verbatim>\<open>JSON\<close> list is a list. A table is
  the list of its rows.
\<close>

type_synonym uuid = "128 word"
type_synonym date = int

datatype plan_status = Trial | Active | Canceled | Expired

record user =
  user_id :: uuid
  user_email :: string
  user_clerkId :: string
  user_stripeCustomerId :: "string option"
  user_planId :: "int option"
  user_planStatus :: plan_status
  user_trialEndDate :: "date option"
  user_businessName :: "string option"
  user_businessDescription :: "string option"
  user_businessWebsite :: "string option"
  user_businessTags :: "string list"
  user_leadType :: "string option"
  user_emailNotificationsEnabled :: bool
  user_dailyLeadLimit :: int
  user_createdAt :: date
  user_updatedAt :: date

record user_subscription =
  us_id :: uuid
  us_userId :: uuid
  us_subscriptionId :: int
  us_stripeSubscriptionId :: "string option"
  us_status :: plan_status
  us_startDate :: date
  us_endDate :: "date option"
  us_trialEndDate :: "date option"
  us_canceledAt :: "date option"
  us_createdAt :: date
  us_updatedAt :: date

record subreddit =
  subreddit_id :: int
  subreddit_name :: string
  subreddit_displayName :: "string option"
  subreddit_description :: "string option"
  subreddit_subscribers :: "int option"
  subreddit_publicDescription :: "string option"
  subreddit_category :: "string option"
  subreddit_tags :: "string list"
  subreddit_isNSFW :: bool
  subreddit_lastScraped :: "date option"
  subreddit_active :: bool
  subreddit_createdAt :: date
  subreddit_updatedAt :: date

datatype content_type = Post | Comment

datatype lead_status = New | Read | Responded | Deleted

record lead =
  lead_id :: uuid
  lead_userId :: uuid
  lead_subredditId :: int
  lead_postId :: string
  lead_parentId :: "string option"
  lead_type :: content_type
  lead_title :: "string option"
  lead_content :: string
  lead_author :: string
  lead_url :: string
  lead_status :: "lead_status option"
  lead_priorityScore :: int
  lead_aiResponse :: "string option"
  lead_aiAnalysis :: "string option"
  lead_isAdminGenerated :: "bool option"
  lead_statusChangedAt :: "date option"
  lead_postDate :: date
  lead_createdAt :: date
  lead_updatedAt :: date

datatype watch_status = WActive | WPaused

record user_subreddit =
  usr_id :: uuid
  usr_userId :: uuid
  usr_subredditId :: int
  usr_keywords :: "string list option"
  usr_excludeKeywords :: "string list option"
  usr_postTypes :: "content_type list option"
  usr_status :: "watch_status option"
  usr_lastScraped :: "date option"
  usr_createdAt :: date
  usr_updatedAt :: date

text \<open>
  The database: one list of rows per table the claims speak about. (The tables
  \<^verbatim>\<open>subscriptions\<close>, \<^verbatim>\<open>notifications\<close>, \<^verbatim>\<open>ai_usage\<close> and \<^verbatim>\<open>system_logs\<close> are left out.)
\<close>

record db =
  users :: "user list"
  user_subscriptions :: "user_subscription list"
  subreddits :: "subreddit list"
  leads :: "lead list"
  user_subreddits :: "user_subreddit list"

section \<open>The subscription check of the auth middleware\<close>

text \<open>
  \<^verbatim>\<open>new APIError(message, statusCode)\<close>: the class itself (\<^verbatim>\<open>utils/APIError\<close>) is not among
  the sources, so an error is the pair of the constructor's arguments.
\<close>

datatype api_error = APIError string nat

fun statusCode :: "api_error \<Rightarrow> nat" where
  "statusCode (APIError msg code) = code"

text \<open>
  \<^verbatim>\<open>user.save()\<close> after \<^verbatim>\<open>user.planStatus = 'expired'\<close>: Sequelize writes the changed
  column (and \<^verbatim>\<open>updatedAt\<close>) of the row with the instance's primary key.
\<close>

definition save_planStatus :: "date \<Rightarrow> user \<Rightarrow> user list \<Rightarrow> user list" where
  "save_planStatus now u rows =
     map (\<lambda>r. if user_id r = user_id u
               then r\<lparr>user_planStatus := user_planStatus u, user_updatedAt := now\<rparr>
               else r) rows"

text \<open>
  \<^verbatim>\<open>requireActiveSubscription(req, res, next)\<close>. The request carries \<^verbatim>\<open>req.user\<close> (absent
  when no earlier middleware set it: reading \<^verbatim>\<open>user.planStatus\<close> then throws inside the
  \<^verbatim>\<open>try\<close>). \<open>save_ok\<close> says whether the database accepts the write of \<^verbatim>\<open>user.save()\<close>;
  a rejected promise is caught by the \<^verbatim>\<open>catch\<close> block. \<open>now\<close> is \<^verbatim>\<open>new Date()\<close>. The
  result is the argument of \<^verbatim>\<open>next\<close> (\<open>None\<close> for the plain \<^verbatim>\<open>next()\<close>), the request's
  user object as the function leaves it (the assignment to \<^verbatim>\<open>planStatus\<close>, and the
  \<^verbatim>\<open>updatedAt\<close> that \<^verbatim>\<open>save\<close> sets before it writes, stay on the object also when the write
  is rejected), and the database.
\<close>

definition requireActiveSubscription ::
  "bool \<Rightarrow> date \<Rightarrow> user option \<Rightarrow> db \<Rightarrow> api_error option \<times> user option \<times> db" where
  "requireActiveSubscription save_ok now req_user d =
     (case req_user of
        None \<Rightarrow> (Some (APIError ''Failed to verify subscription status'' 500), None, d)
      | Some u \<Rightarrow>
          if user_planStatus u \<noteq> Active \<and> user_planStatus u \<noteq> Trial
          then (Some (APIError ''Active subscription required for this action'' 403), Some u, d)
          else if user_planStatus u = Trial \<and>
                  (case user_trialEndDate u of None \<Rightarrow> False | Some t \<Rightarrow> t < now)
          then (let u' = u\<lparr>user_planStatus := Expired\<rparr> in
                if save_ok
                then (Some (APIError ''Your trial period has expired'' 403),
                      Some (u'\<lparr>user_updatedAt := now\<rparr>),
                      d\<lparr>users := save_planStatus now u' (users d)\<rparr>)
                else (Some (APIError ''Failed to verify subscription status'' 500),
                      Some (u'\<lparr>user_updatedAt := now\<rparr>), d))
          else (None, Some u, d))"

section \<open>The auth service: \<^verbatim>\<open>deleteUser\<close>\<close>









section \<open>Inserts into \<^verbatim>\<open>leads\<close> and \<^verbatim>\<open>user_subreddits\<close>\<close>

























section \<open>Subscription plans and the daily lead limit\<close>

text \<open>
  \<^verbatim>\<open>SUBSCRIPTION_PLANS\<close> of \<^verbatim>\<open>config.js\<close>: the three plans and their limits (\<^verbatim>\<open>durationDays\<close> is
  a property of the free trial only).
\<close>

datatype subscription_plan = FREE_TRIAL | LOWER_TIER | MEDIUM_TIER

fun plan_id :: "subscription_plan \<Rightarrow> int" where
  "plan_id FREE_TRIAL = 1"
| "plan_id LOWER_TIER = 2"
| "plan_id MEDIUM_TIER = 3"

fun plan_name :: "subscription_plan \<Rightarrow> string" where
  "plan_name FREE_TRIAL = ''Free Trial''"
| "plan_name LOWER_TIER = ''Basic Plan''"
| "plan_name MEDIUM_TIER = ''Premium Plan''"

fun maxSubreddits :: "subscription_plan \<Rightarrow> nat" where
  "maxSubreddits FREE_TRIAL = 3"
| "maxSubreddits LOWER_TIER = 3"
| "maxSubreddits MEDIUM_TIER = 6"


fun durationDays :: "subscription_plan \<Rightarrow> nat option" where
  "durationDays FREE_TRIAL = Some 3"
| "durationDays LOWER_TIER = None"
| "durationDays MEDIUM_TIER = None"





section \<open>Example rows\<close>

text \<open>
  A trial user (id 1) whose trial ended at time 1000 and a second user (id 2); a
  subscription of the first; subreddit 7; databases that hold them.
\<close>

definition trial_user :: user where
  "trial_user =
     \<lparr>user_id = 1, user_email = ''alice@example.com'', user_clerkId = ''clerk_1'',
      user_stripeCustomerId = Some ''cus_1'', user_planId = None, user_planStatus = Trial,
      user_trialEndDate = Some 1000, user_businessName = None,
      user_businessDescription = None, user_businessWebsite = None, user_businessTags = [],
      user_leadType = None, user_emailNotificationsEnabled = True, user_dailyLeadLimit = 5,
      user_createdAt = 0, user_updatedAt = 0\<rparr>"




definition empty_db :: db where
  "empty_db =
     \<lparr>users = [], user_subscriptions = [], subreddits = [], leads = [], user_subreddits = []\<rparr>"

definition trial_db :: db where
  "trial_db = empty_db\<lparr>users := [trial_user]\<rparr>"









section \<open>The claims\<close>

subsection \<open>Claim C9\<close>

lemma save_planStatus_persists:
  "\<forall>r \<in> set (save_planStatus now u rows). user_id r = user_id u \<longrightarrow> user_planStatus r = user_planStatus u"
  by (auto simp: save_planStatus_def)

lemma save_planStatus_ids: "map user_id (save_planStatus now u rows) = map user_id rows"
  by (simp add: save_planStatus_def)

text \<open>
  C9 as stated fails when the write of \<^verbatim>\<open>user.save()\<close> is rejected: the \<^verbatim>\<open>catch\<close> block
  answers 500, not 403, and nothing is persisted. Here the user is on trial, the trial end
  (1000) lies strictly before now (2000), and the database rejects the write.
\<close>

theorem C9_save_failure_counterexample:
  "user_planStatus trial_user = Trial \<and> user_trialEndDate trial_user = Some 1000 \<and> (1000::int) < 2000 \<and>
   fst (requireActiveSubscription False 2000 (Some trial_user) trial_db) =
     Some (APIError ''Failed to verify subscription status'' 500) \<and>
   map_option statusCode (fst (requireActiveSubscription False 2000 (Some trial_user) trial_db)) \<noteq> Some 403 \<and>
   snd (snd (requireActiveSubscription False 2000 (Some trial_user) trial_db)) = trial_db \<and>
   map user_planStatus (users (snd (snd (requireActiveSubscription False 2000 (Some trial_user) trial_db)))) = [Trial]"
  by (simp add: requireActiveSubscription_def Let_def trial_user_def trial_db_def empty_db_def)

text \<open>
  C9, amended: for a user whose planStatus is \<open>Trial\<close> and whose trialEndDate lies strictly
  before now, the subscription check sets the request user's planStatus to \<open>Expired\<close> and,
  when the write of \<^verbatim>\<open>user.save()\<close> succeeds, sets planStatus to \<open>Expired\<close> in every stored
  row with the user's id (no row is added or removed) and rejects with a 403 error; when
  the write fails it rejects with a 500 error and the database is unchanged. A user whose
  planStatus is neither \<open>Active\<close> nor \<open>Trial\<close> is rejected with 403 and neither the request
  user nor the database changes, whatever the database would answer.
\<close>

theorem C9_subscription_check:
  "(user_planStatus u = Trial \<and> user_trialEndDate u = Some t \<and> t < now \<longrightarrow>
      (case requireActiveSubscription True now (Some u) d of
         (err, ru, d') \<Rightarrow>
           err = Some (APIError ''Your trial period has expired'' 403) \<and>
           map_option user_planStatus ru = Some Expired \<and>
           (\<forall>r \<in> set (users d'). user_id r = user_id u \<longrightarrow> user_planStatus r = Expired) \<and>
           map user_id (users d') = map user_id (users d) \<and>
           d'\<lparr>users := users d\<rparr> = d) \<and>
      (case requireActiveSubscription False now (Some u) d of
         (err, ru, d') \<Rightarrow>
           map_option statusCode err = Some 500 \<and>
           map_option user_planStatus ru = Some Expired \<and> d' = d)) \<and>
   (user_planStatus u \<noteq> Active \<and> user_planStatus u \<noteq> Trial \<longrightarrow>
      requireActiveSubscription save_ok now (Some u) d =
        (Some (APIError ''Active subscription required for this action'' 403), Some u, d))"
proof (intro conjI impI)
  assume h: "user_planStatus u = Trial \<and> user_trialEndDate u = Some t \<and> t < now"
  have p: "\<forall>r \<in> set (save_planStatus now (u\<lparr>user_planStatus := Expired\<rparr>) (users d)).
             user_id r = user_id u \<longrightarrow> user_planStatus r = Expired"
    using save_planStatus_persists [of now "u\<lparr>user_planStatus := Expired\<rparr>" "users d"] by simp
  show "case requireActiveSubscription True now (Some u) d of
         (err, ru, d') \<Rightarrow>
           err = Some (APIError ''Your trial period has expired'' 403) \<and>
           map_option user_planStatus ru = Some Expired \<and>
           (\<forall>r \<in> set (users d'). user_id r = user_id u \<longrightarrow> user_planStatus r = Expired) \<and>
           map user_id (users d') = map user_id (users d) \<and>
           d'\<lparr>users := users d\<rparr> = d"
    using h p by (simp add: requireActiveSubscription_def Let_def save_planStatus_ids)
  show "case requireActiveSubscription False now (Some u) d of
         (err, ru, d') \<Rightarrow>
           map_option statusCode err = Some 500 \<and>
           map_option user_planStatus ru = Some Expired \<and> d' = d"
    using h by (simp add: requireActiveSubscription_def Let_def)
next
  assume "user_planStatus u \<noteq> Active \<and> user_planStatus u \<noteq> Trial"
  then show "requireActiveSubscription save_ok now (Some u) d =
        (Some (APIError ''Active subscription required for this action'' 403), Some u, d)"
    by (simp add: requireActiveSubscription_def)
qed

theorem C9_subscription_check_witness:
  "user_planStatus trial_user = Trial \<and> user_trialEndDate trial_user = Some 1000 \<and> (1000::int) < 2000 \<and>
   fst (requireActiveSubscription True 2000 (Some trial_user) trial_db) =
     Some (APIError ''Your trial period has expired'' 403) \<and>
   map user_planStatus (users (snd (snd (requireActiveSubscription True 2000 (Some trial_user) trial_db)))) =
     [Expired] \<and>
   user_planStatus (trial_user\<lparr>user_planStatus := Canceled\<rparr>) \<noteq> Active \<and>
   user_planStatus (trial_user\<lparr>user_planStatus := Canceled\<rparr>) \<noteq> Trial \<and>
   requireActiveSubscription True 2000 (Some (trial_user\<lparr>user_planStatus := Canceled\<rparr>)) trial_db =
     (Some (APIError ''Active subscription required for this action'' 403),
      Some (trial_user\<lparr>user_planStatus := Canceled\<rparr>), trial_db)"
  using C9_subscription_check [of trial_user 1000 2000 trial_db True]
        C9_subscription_check [of "trial_user\<lparr>user_planStatus := Canceled\<rparr>" 1000 2000 trial_db True]
  by (simp add: requireActiveSubscription_def Let_def save_planStatus_def trial_user_def trial_db_def empty_db_def)

subsection \<open>Claim C10\<close>








subsection \<open>Facts about \<^verbatim>\<open>Lead.create\<close>\<close>







subsection \<open>Claim C1\<close>













subsection \<open>Claim C4\<close>






subsection \<open>Claim C2\<close>






subsection \<open>Claim C7\<close>







subsection \<open>Claim C8\<close>










end
